theory Spec2Isabelle
  imports Complex_Main "HOL-Library.Word"
begin

section \<open>InspectableWebContentsImpl: data model\<close>

text \<open>
  The embedding follows \<^verbatim>\<open>shell/browser/ui/inspectable_web_contents_impl.cc\<close>.
  Collaborator objects (web contents, agent hosts) are identified by numbers; a raw or
  smart pointer that may be null is an \<open>option\<close>, and a pointer only tested for null is a
  \<open>bool\<close>. Calls made on collaborators are collected, in program order, as a list of
  \<open>effect\<close>s.
\<close>

type_synonym web_contents = nat
type_synonym agent_host = nat

text \<open>
  \<^verbatim>\<open>base::Value\<close>: the tagged union of JSON-like values. A C++ \<^verbatim>\<open>int\<close> payload is kept as
  an \<open>int\<close>, a double as its 64 bits. Dictionary keys are unique in the C++ container; here
  a dictionary is an association list read with \<open>map_of\<close>.
\<close>

datatype Value =
    NONE
  | BOOLEAN bool
  | INTEGER int
  | DOUBLE "64 word"
  | STRING string
  | BINARY string
  | DICTIONARY "(string \<times> Value) list"
  | LIST "Value list"

text \<open>
  A script handed to \<^verbatim>\<open>ExecuteJavaScript\<close> on the frontend's main frame.
  \<open>ClientFunction name args\<close> is the text \<^verbatim>\<open>name(json(arg1), json(arg2), ...);\<close> built by
  \<^verbatim>\<open>CallClientFunction\<close>; \<open>DispatchMessage m\<close> is
  \<^verbatim>\<open>DevToolsAPI.dispatchMessage(<m as an escaped JSON string>);\<close>; \<open>SetDockSide d\<close> is
  \<^verbatim>\<open>Components.dockController.setDockSide("d");\<close>.
  The writers \<^verbatim>\<open>base::JSONWriter::Write\<close> and \<^verbatim>\<open>base::EscapeJSONString\<close> and the conversion
  \<^verbatim>\<open>base::UTF8ToUTF16\<close> of the finished text belong to the base library and are not
  modelled: a script keeps the function name and the \<^verbatim>\<open>base::Value\<close>s (or the message)
  that are handed to the writer, not the text the frontend receives. The writers put
  U+FFFD in the place of bytes that are not UTF-8.
\<close>

datatype script =
    ClientFunction string "Value list"
  | DispatchMessage string
  | SetDockSide string

datatype effect =
    ExecuteJavaScript web_contents script
  | AgentDispatchProtocolMessage agent_host string
  | DevToolsReloadPage
  | CallbackRun "Value option"
  | Dispatch int string "Value list"
  | LogError string
  | LogWarning int int
  | StartTimer int int
  | ViewShowDevTools bool
  | ViewSetIsDocked bool bool
  | ViewCloseDevTools
  | WebContentsFocus
  | GrantRequestOrigin string
  | DevToolsOpened

datatype error = NullDereference

record HttpResponseHeaders =
  response_code :: int
  header_lines :: "(string \<times> string) list"

text \<open>
  \<^verbatim>\<open>NetworkResourceLoader\<close>: \<open>retry_delay\<close> is a \<^verbatim>\<open>base::TimeDelta\<close>, a signed count of
  microseconds.
\<close>

record NetworkResourceLoader =
  stream_id :: int
  resource_request :: "string \<times> string"
  response_headers :: "HttpResponseHeaders option"
  retry_delay :: int

text \<open>
  The members of \<^verbatim>\<open>InspectableWebContentsImpl\<close> that the modelled functions read or write.
  \<open>attached_clients\<close> is not a member: it is the bookkeeping of the agent hosts, the hosts
  on which this object is currently registered as a client through \<^verbatim>\<open>AttachClient\<close>.
  \<open>pref_current_dock_state\<close> is the string stored under \<^verbatim>\<open>currentDockState\<close> in the
  preference dictionary (empty when absent).
\<close>

record InspectableWebContentsImpl =
  frontend_loaded :: bool
  can_dock :: bool
  dock_state :: string
  activate :: bool
  delegate :: bool
  view_delegate :: bool
  is_guest :: bool
  agent_host :: "agent_host option"
  managed_devtools_web_contents :: "web_contents option"
  external_devtools_web_contents :: "web_contents option"
  embedder_message_dispatcher :: bool
  loaders :: "NetworkResourceLoader list"
  attached_clients :: "agent_host list"
  pref_current_dock_state :: string

section \<open>Frontend document and client functions\<close>

definition GetDevToolsWebContents :: "InspectableWebContentsImpl \<Rightarrow> web_contents option" where
  "GetDevToolsWebContents s =
     (case external_devtools_web_contents s of
        Some w \<Rightarrow> Some w
      | None \<Rightarrow> managed_devtools_web_contents s)"

text \<open>
  \<^verbatim>\<open>CallClientFunction\<close>: returns at once without a frontend document; the second argument
  is written only after a first one, the third only after a second one.
\<close>

definition client_args :: "Value option \<Rightarrow> Value option \<Rightarrow> Value option \<Rightarrow> Value list" where
  "client_args arg1 arg2 arg3 =
     (case arg1 of
        None \<Rightarrow> []
      | Some a1 \<Rightarrow> a1 #
          (case arg2 of
             None \<Rightarrow> []
           | Some a2 \<Rightarrow> a2 # (case arg3 of None \<Rightarrow> [] | Some a3 \<Rightarrow> [a3])))"

definition CallClientFunction ::
  "InspectableWebContentsImpl \<Rightarrow> string \<Rightarrow> Value option \<Rightarrow> Value option \<Rightarrow> Value option
     \<Rightarrow> effect list" where
  "CallClientFunction s function_name arg1 arg2 arg3 =
     (case GetDevToolsWebContents s of
        None \<Rightarrow> []
      | Some w \<Rightarrow> [ExecuteJavaScript w (ClientFunction function_name (client_args arg1 arg2 arg3))])"

definition SendMessageAck :: "InspectableWebContentsImpl \<Rightarrow> int \<Rightarrow> Value option \<Rightarrow> effect list" where
  "SendMessageAck s request_id arg =
     CallClientFunction s ''DevToolsAPI.embedderMessageAck'' (Some (INTEGER request_id)) arg None"

text \<open>
  \<^verbatim>\<open>NetworkResourceLoader::OnDataReceived\<close>. \<^verbatim>\<open>base::IsStringUTF8\<close> and
  \<^verbatim>\<open>base::Base64Encode\<close> belong to the base library and are parameters. The
  \<^verbatim>\<open>resume\<close> closure run at the end continues the download; it makes no call on the
  frontend and is left out.
\<close>

definition OnDataReceived ::
  "(string \<Rightarrow> bool) \<Rightarrow> (string \<Rightarrow> string) \<Rightarrow> InspectableWebContentsImpl
     \<Rightarrow> NetworkResourceLoader \<Rightarrow> string \<Rightarrow> effect list" where
  "OnDataReceived IsStringUTF8 Base64Encode bindings l chunk =
     (let encoded = \<not> IsStringUTF8 chunk;
          chunkValue = (if encoded then STRING (Base64Encode chunk) else STRING chunk)
      in CallClientFunction bindings ''DevToolsAPI.streamWrite''
           (Some (INTEGER (stream_id l))) (Some chunkValue) (Some (BOOLEAN encoded)))"

text \<open>
  \<^verbatim>\<open>AddDevToolsExtensionsToClient\<close> (compiled in with the extensions build flag). The
  extension registry is \<open>None\<close> when absent; an extension is given by its devtools page
  URL (empty when it has none), its name, its URL and its experimental permission.
\<close>

record extension =
  devtools_page_url :: string
  ext_name :: string
  ext_url :: string
  experimental :: bool

fun extension_effects :: "extension list \<Rightarrow> effect list" where
  "extension_effects [] = []"
| "extension_effects (e # es) =
     (if devtools_page_url e = [] then extension_effects es
      else GrantRequestOrigin (ext_url e) # extension_effects es)"

fun extension_results :: "extension list \<Rightarrow> Value list" where
  "extension_results [] = []"
| "extension_results (e # es) =
     (if devtools_page_url e = [] then extension_results es
      else DICTIONARY [(''startPage'', STRING (devtools_page_url e)),
                       (''name'', STRING (ext_name e)),
                       (''exposeExperimentalAPIs'', BOOLEAN (experimental e))]
           # extension_results es)"

definition AddDevToolsExtensionsToClient ::
  "InspectableWebContentsImpl \<Rightarrow> extension list option \<Rightarrow> effect list" where
  "AddDevToolsExtensionsToClient s registry =
     (case registry of
        None \<Rightarrow> []
      | Some enabled_extensions \<Rightarrow>
          extension_effects enabled_extensions @
          CallClientFunction s ''DevToolsAPI.addExtensions''
            (Some (LIST (extension_results enabled_extensions))) None None)"

section \<open>Attach and detach\<close>

definition DetachClient :: "agent_host \<Rightarrow> InspectableWebContentsImpl \<Rightarrow> InspectableWebContentsImpl" where
  "DetachClient h s = s\<lparr>attached_clients := removeAll h (attached_clients s)\<rparr>"

definition AttachClient :: "agent_host \<Rightarrow> InspectableWebContentsImpl \<Rightarrow> InspectableWebContentsImpl" where
  "AttachClient h s = s\<lparr>attached_clients := List.insert h (attached_clients s)\<rparr>"

definition Detach :: "InspectableWebContentsImpl \<Rightarrow> InspectableWebContentsImpl" where
  "Detach s =
     (let s1 = (case agent_host s of Some h \<Rightarrow> DetachClient h s | None \<Rightarrow> s)
      in s1\<lparr>agent_host := None\<rparr>)"

definition AttachTo :: "agent_host \<Rightarrow> InspectableWebContentsImpl \<Rightarrow> InspectableWebContentsImpl" where
  "AttachTo host s =
     (let s1 = Detach s;
          s2 = s1\<lparr>agent_host := Some host\<rparr>
      in AttachClient host s2)"

definition Reattach ::
  "InspectableWebContentsImpl \<Rightarrow> effect list \<times> InspectableWebContentsImpl" where
  "Reattach s =
     (let s1 = (case agent_host s of
                  Some h \<Rightarrow> AttachClient h (DetachClient h s)
                | None \<Rightarrow> s)
      in ([CallbackRun None], s1))"

text \<open>A sequence of lifecycle calls on one session, applied left to right.\<close>

datatype session_call = CallAttachTo agent_host | CallDetach | CallReattach

fun session_step :: "InspectableWebContentsImpl \<Rightarrow> session_call \<Rightarrow> InspectableWebContentsImpl" where
  "session_step s (CallAttachTo h) = AttachTo h s"
| "session_step s CallDetach = Detach s"
| "session_step s CallReattach = snd (Reattach s)"

definition session_run ::
  "InspectableWebContentsImpl \<Rightarrow> session_call list \<Rightarrow> InspectableWebContentsImpl" where
  "session_run s calls = foldl session_step s calls"

text \<open>The state the constructor leaves: no agent host, no frontend, nothing attached.\<close>

definition constructed :: "InspectableWebContentsImpl \<Rightarrow> bool" where
  "constructed s \<longleftrightarrow>
     \<not> frontend_loaded s \<and> can_dock s \<and> \<not> delegate s \<and> agent_host s = None \<and>
     managed_devtools_web_contents s = None \<and> external_devtools_web_contents s = None \<and>
     \<not> embedder_message_dispatcher s \<and> loaders s = [] \<and> attached_clients s = []"

section \<open>Outbound protocol messages\<close>

text \<open>
  \<^verbatim>\<open>kMaxMessageChunkSize = IPC::Channel::kMaximumMessageSize / 4\<close>. The IPC constant is
  declared outside this file and is a parameter of the model.
\<close>

definition kMaxMessageChunkSize :: "nat \<Rightarrow> nat" where
  "kMaxMessageChunkSize kMaximumMessageSize = kMaximumMessageSize div 4"

text \<open>\<^verbatim>\<open>StringPiece::substr(pos, n)\<close> for \<open>pos\<close> within the string.\<close>

definition substr :: "string \<Rightarrow> nat \<Rightarrow> nat \<Rightarrow> string" where
  "substr str pos n = take n (drop pos str)"

text \<open>\<^verbatim>\<open>static_cast<int>\<close> of a \<^verbatim>\<open>size_t\<close>: the low 32 bits, read as two's complement.\<close>

definition static_cast_int :: "nat \<Rightarrow> int" where
  "static_cast_int n = sint (word_of_nat n :: 32 word)"

text \<open>
  The chunk loop \<^verbatim>\<open>for (pos = 0; pos < length; pos += kMaxMessageChunkSize)\<close>, from a
  position \<open>pos\<close> on. With a chunk size of 0 the C++ loop does not end, so the loop is a
  partial function and \<open>None\<close> stands for not returning. Positions are natural numbers:
  a message in memory is shorter than \<open>2^63\<close> bytes and the chunk size is at most a
  quarter of the range of \<^verbatim>\<open>size_t\<close>, so \<^verbatim>\<open>pos += kMaxMessageChunkSize\<close> does not wrap.
\<close>

partial_function (option) dispatch_chunks ::
  "nat \<Rightarrow> InspectableWebContentsImpl \<Rightarrow> string \<Rightarrow> Value \<Rightarrow> nat \<Rightarrow> effect list option" where
  "dispatch_chunks chunk_size s str_message total_size pos =
     (if pos < length str_message then
        Option.bind (dispatch_chunks chunk_size s str_message total_size (pos + chunk_size))
          (\<lambda>rest. Some
             (CallClientFunction s ''DevToolsAPI.dispatchMessageChunk''
                (Some (STRING (substr str_message pos chunk_size)))
                (if pos \<noteq> 0 then None else Some total_size) None
              @ rest))
      else Some [])"

declare dispatch_chunks.simps [code]

definition DispatchProtocolMessage ::
  "nat \<Rightarrow> InspectableWebContentsImpl \<Rightarrow> string \<Rightarrow> (error + effect list) option" where
  "DispatchProtocolMessage kMaximumMessageSize s str_message =
     (if \<not> frontend_loaded s then Some (Inr [])
      else if length str_message < kMaxMessageChunkSize kMaximumMessageSize then
        (case GetDevToolsWebContents s of
           None \<Rightarrow> Some (Inl NullDereference)
         | Some w \<Rightarrow> Some (Inr [ExecuteJavaScript w (DispatchMessage str_message)]))
      else
        map_option Inr
          (dispatch_chunks (kMaxMessageChunkSize kMaximumMessageSize) s str_message
             (INTEGER (static_cast_int (length str_message))) 0))"

text \<open>
  The positions the chunk loop visits from \<open>pos\<close> on, for a chunk size that is not 0.
\<close>

function positions :: "nat \<Rightarrow> nat \<Rightarrow> nat \<Rightarrow> nat list" where
  "positions chunk_size len pos =
     (if 0 < chunk_size \<and> pos < len then pos # positions chunk_size len (pos + chunk_size)
      else [])"
  by pat_completeness auto
termination
  by (relation "measure (\<lambda>(chunk_size, len, pos). len - pos)") auto

text \<open>
  The string value that a \<^verbatim>\<open>DevToolsAPI.dispatchMessageChunk\<close> call hands to
  \<^verbatim>\<open>CallClientFunction\<close> as its first argument, before it is written as JSON.
\<close>

fun chunk_payload :: "effect \<Rightarrow> string option" where
  "chunk_payload (ExecuteJavaScript w (ClientFunction f (STRING c # rest))) =
     (if f = ''DevToolsAPI.dispatchMessageChunk'' then Some c else None)"
| "chunk_payload e = None"

fun is_message_delivery :: "effect \<Rightarrow> bool" where
  "is_message_delivery (ExecuteJavaScript w (DispatchMessage m)) = True"
| "is_message_delivery (ExecuteJavaScript w (ClientFunction f args)) =
     (f = ''DevToolsAPI.dispatchMessageChunk'')"
| "is_message_delivery e = False"

section \<open>Loading completed\<close>

definition SetIsDocked :: "InspectableWebContentsImpl \<Rightarrow> bool \<Rightarrow> bool \<Rightarrow> effect list" where
  "SetIsDocked s callback docked =
     (if managed_devtools_web_contents s \<noteq> None then [ViewSetIsDocked docked (activate s)] else [])
     @ (if callback then [CallbackRun None] else [])"

text \<open>
  \<^verbatim>\<open>LoadCompleted\<close>. \<open>extensions\<close> is \<open>None\<close> when the build has no extension support,
  and the extension registry otherwise.
\<close>

definition LoadCompleted ::
  "extension list option option \<Rightarrow> InspectableWebContentsImpl
     \<Rightarrow> error + effect list \<times> InspectableWebContentsImpl" where
  "LoadCompleted extensions s0 =
     (let s = s0\<lparr>frontend_loaded := True\<rparr>;
          shown = (if managed_devtools_web_contents s \<noteq> None
                   then [ViewShowDevTools (activate s)] else []);
          finish = (\<lambda>t.
             (case extensions of
                None \<Rightarrow> []
              | Some registry \<Rightarrow> AddDevToolsExtensionsToClient t registry)
             @ (if view_delegate t then [DevToolsOpened] else []))
      in if \<not> can_dock s then Inr (shown @ SetIsDocked s False False @ finish s, s)
         else
           let s1 = (if dock_state s = []
                     then s\<lparr>dock_state := filter (\<lambda>c. c \<noteq> CHR 0x22) (pref_current_dock_state s)\<rparr>
                     else s)
           in (case GetDevToolsWebContents s1 of
                 None \<Rightarrow> Inl NullDereference
               | Some w \<Rightarrow>
                   Inr (shown @ [ExecuteJavaScript w (SetDockSide (dock_state s1))] @ finish s1, s1)))"

section \<open>Closing the frontend\<close>

text \<open>
  \<^verbatim>\<open>CloseDevTools\<close>: with a frontend document, the loaded flag is cleared, a managed
  document is closed and destroyed, the message dispatcher is released and, unless the
  session is a guest, the inspected contents get the focus. An external frontend document
  stays in place.
\<close>

definition CloseDevTools ::
  "InspectableWebContentsImpl \<Rightarrow> effect list \<times> InspectableWebContentsImpl" where
  "CloseDevTools s =
     (case GetDevToolsWebContents s of
        None \<Rightarrow> ([], s)
      | Some w \<Rightarrow>
          (let s1 = s\<lparr>frontend_loaded := False\<rparr>;
               closed = (if managed_devtools_web_contents s1 \<noteq> None
                         then [ViewCloseDevTools] else []);
               s2 = s1\<lparr>managed_devtools_web_contents := None\<rparr>;
               s3 = s2\<lparr>embedder_message_dispatcher := False\<rparr>
           in (closed @ (if \<not> is_guest s3 then [WebContentsFocus] else []), s3)))"

section \<open>Inbound frontend messages\<close>

text \<open>
  \<^verbatim>\<open>base::MatchPattern(string, pattern)\<close> belongs to the base library: \<^verbatim>\<open>*\<close> matches any
  run of characters, \<^verbatim>\<open>?\<close> matches at most one character, a backslash takes the next
  pattern character literally. The library compares code points; for a pattern of ASCII
  characters, as the one used below, that is the comparison of bytes made here.
\<close>

fun MatchPattern :: "string \<Rightarrow> string \<Rightarrow> bool" where
  "MatchPattern str [] = (str = [])"
| "MatchPattern str (p # ps) =
     (if p = CHR ''*'' then
        (case str of
           [] \<Rightarrow> MatchPattern [] ps
         | c # cs \<Rightarrow> MatchPattern (c # cs) ps \<or> MatchPattern cs (p # ps))
      else if p = CHR ''?'' then
        (case str of
           [] \<Rightarrow> MatchPattern [] ps
         | c # cs \<Rightarrow> MatchPattern (c # cs) ps \<or> MatchPattern cs ps)
      else if p = CHR 0x5C then
        (case ps of
           [] \<Rightarrow> str = []
         | q # qs \<Rightarrow> (case str of [] \<Rightarrow> False | c # cs \<Rightarrow> c = q \<and> MatchPattern cs qs))
      else
        (case str of [] \<Rightarrow> False | c # cs \<Rightarrow> c = p \<and> MatchPattern cs ps))"

definition kReloadPattern :: string where
  \<open>kReloadPattern = ''{"id":*,"method":"Page.reload","params":*}''\<close>

definition DispatchProtocolMessageFromDevToolsFrontend ::
  "InspectableWebContentsImpl \<Rightarrow> string \<Rightarrow> effect list" where
  "DispatchProtocolMessageFromDevToolsFrontend s message =
     (if MatchPattern message kReloadPattern then
        (if delegate s then [DevToolsReloadPage] else [])
      else
        (case agent_host s of
           Some h \<Rightarrow> [AgentDispatchProtocolMessage h message]
         | None \<Rightarrow> []))"

text \<open>
  The readers of \<^verbatim>\<open>base::DictionaryValue\<close> used on the parsed message. The keys read
  (\<^verbatim>\<open>id\<close>, \<^verbatim>\<open>method\<close>, \<^verbatim>\<open>params\<close>) contain no dot, so a path is a key.
\<close>

definition kFrontendHostId :: string where "kFrontendHostId = ''id''"
definition kFrontendHostMethod :: string where "kFrontendHostMethod = ''method''"
definition kFrontendHostParams :: string where "kFrontendHostParams = ''params''"

definition HasKey :: "(string \<times> Value) list \<Rightarrow> string \<Rightarrow> bool" where
  "HasKey dict key = (map_of dict key \<noteq> None)"

definition GetString :: "(string \<times> Value) list \<Rightarrow> string \<Rightarrow> string option" where
  "GetString dict key = (case map_of dict key of Some (STRING v) \<Rightarrow> Some v | _ \<Rightarrow> None)"

definition GetList :: "(string \<times> Value) list \<Rightarrow> string \<Rightarrow> Value list option" where
  "GetList dict key = (case map_of dict key of Some (LIST v) \<Rightarrow> Some v | _ \<Rightarrow> None)"

definition GetInteger :: "(string \<times> Value) list \<Rightarrow> string \<Rightarrow> int option" where
  "GetInteger dict key = (case map_of dict key of Some (INTEGER v) \<Rightarrow> Some v | _ \<Rightarrow> None)"

text \<open>
  \<^verbatim>\<open>HandleMessageFromDevToolsFrontend\<close>. \<^verbatim>\<open>base::JSONReader::ReadDeprecated\<close> is a parameter:
  it returns \<open>None\<close> for text that is not valid JSON. \<open>Dispatch id method params\<close> is the call
  of the embedder message dispatcher, with the acknowledgement callback bound to \<open>id\<close>.
\<close>

definition HandleMessageFromDevToolsFrontend ::
  "(string \<Rightarrow> Value option) \<Rightarrow> InspectableWebContentsImpl \<Rightarrow> string \<Rightarrow> effect list" where
  "HandleMessageFromDevToolsFrontend ReadDeprecated s message =
     (if \<not> embedder_message_dispatcher s then []
      else
        (case ReadDeprecated message of
           Some (DICTIONARY dict) \<Rightarrow>
             (case GetString dict kFrontendHostMethod of
                None \<Rightarrow> [LogError message]
              | Some method \<Rightarrow>
                  if HasKey dict kFrontendHostParams \<and> GetList dict kFrontendHostParams = None
                  then [LogError message]
                  else
                    let params = (case GetList dict kFrontendHostParams of
                                    Some l \<Rightarrow> l | None \<Rightarrow> []);
                        id = (case GetInteger dict kFrontendHostId of
                                Some i \<Rightarrow> i | None \<Rightarrow> 0)
                    in [Dispatch id method params])
         | _ \<Rightarrow> [LogError message]))"

section \<open>Network resource loader\<close>

text \<open>
  \<^verbatim>\<open>base::TimeDelta\<close> counts microseconds in a signed 64-bit integer. Its product with a
  \<^verbatim>\<open>double\<close> is the double product converted back with truncation towards zero. For a
  count below \<open>2^40\<close> in absolute value the product with 1.3 truncates to the same integer
  as the exact product with 13/10, which is what is written here; the delays of a loader
  stay below 13 seconds.
\<close>

definition kInitialBackoffDelay :: int where
  "kInitialBackoffDelay = 250 * 1000"

definition kMaxBackoffDelay :: int where
  "kMaxBackoffDelay = 10 * 1000000"

definition times_1_3 :: "int \<Rightarrow> int" where
  "times_1_3 delta = (if 0 \<le> delta then (delta * 13) div 10 else - ((- delta * 13) div 10))"

definition GetNextExponentialBackoffDelay :: "int \<Rightarrow> int" where
  "GetNextExponentialBackoffDelay delta =
     (if delta = 0 then kInitialBackoffDelay else times_1_3 delta)"

text \<open>
  \<^verbatim>\<open>NetworkResourceLoader::Create\<close> with the constructor: the new loader has no response
  headers yet, starts its timer with the delay and joins the registry.
\<close>

definition Create ::
  "int \<Rightarrow> InspectableWebContentsImpl \<Rightarrow> string \<times> string \<Rightarrow> int
     \<Rightarrow> effect list \<times> InspectableWebContentsImpl" where
  "Create sid bindings request delay =
     (let resource_loader =
            \<lparr>stream_id = sid, resource_request = request,
             response_headers = None, retry_delay = delay\<rparr>
      in ([StartTimer sid delay],
          bindings\<lparr>loaders := loaders bindings @ [resource_loader]\<rparr>))"

definition OnResponseStarted ::
  "NetworkResourceLoader \<Rightarrow> HttpResponseHeaders option \<Rightarrow> NetworkResourceLoader" where
  "OnResponseStarted l headers = l\<lparr>response_headers := headers\<rparr>"

text \<open>
  \<^verbatim>\<open>base::DictionaryValue\<close> writers. \<open>SetKey\<close> stores under a key, replacing the value the
  key had. \<open>SetPath\<close> is \<^verbatim>\<open>DictionaryValue::Set\<close>, used by \<^verbatim>\<open>SetString\<close> and
  \<^verbatim>\<open>SetInteger\<close>: the path is split at each dot and every component but the last names a
  nested dictionary, created (or put in place of a value that is no dictionary) on the way.
\<close>

fun SetKey :: "string \<Rightarrow> Value \<Rightarrow> (string \<times> Value) list \<Rightarrow> (string \<times> Value) list" where
  "SetKey k v [] = [(k, v)]"
| "SetKey k v ((k', v') # d) = (if k = k' then (k, v) # d else (k', v') # SetKey k v d)"

function SetPath :: "string \<Rightarrow> Value \<Rightarrow> (string \<times> Value) list \<Rightarrow> (string \<times> Value) list" where
  "SetPath path v d =
     (if CHR ''.'' \<in> set path then
        (let key = takeWhile (\<lambda>c. c \<noteq> CHR ''.'') path;
             rest = drop (Suc (length key)) path;
             child = (case map_of d key of Some (DICTIONARY c) \<Rightarrow> c | _ \<Rightarrow> [])
         in SetKey key (DICTIONARY (SetPath rest v child)) d)
      else SetKey path v d)"
  by pat_completeness auto
termination
  by (relation "measure (\<lambda>(path, v, d). length path)") (fastforce dest: length_pos_if_in_set)+

fun header_dictionary :: "(string \<times> string) list \<Rightarrow> (string \<times> Value) list \<Rightarrow> (string \<times> Value) list" where
  "header_dictionary [] headers = headers"
| "header_dictionary ((name, val) # lines) headers =
     header_dictionary lines (SetPath name (STRING val) headers)"

datatype net_error = OK | ERR_INSUFFICIENT_RESOURCES | ERR_OTHER int

text \<open>
  \<^verbatim>\<open>NetworkResourceLoader::OnComplete\<close> of loader \<open>l\<close>, which the registry of \<open>bindings\<close>
  owns; \<open>NetError\<close> is what \<^verbatim>\<open>loader_->NetError()\<close> returns. The callback receives the
  response dictionary. At the end the loader leaves the registry.
\<close>

definition completion_response :: "NetworkResourceLoader \<Rightarrow> (string \<times> Value) list" where
  "completion_response l =
     (let response = SetPath ''statusCode''
            (INTEGER (case response_headers l of
                        Some h \<Rightarrow> response_code h
                      | None \<Rightarrow> 200)) [];
          headers = (case response_headers l of
                       Some h \<Rightarrow> header_dictionary (header_lines h) []
                     | None \<Rightarrow> [])
      in SetPath ''headers'' (DICTIONARY headers) response)"

definition OnComplete ::
  "InspectableWebContentsImpl \<Rightarrow> NetworkResourceLoader \<Rightarrow> bool \<Rightarrow> net_error
     \<Rightarrow> effect list \<times> InspectableWebContentsImpl" where
  "OnComplete bindings l success NetError =
     (let (effects, b1) =
            (if \<not> success \<and> NetError = ERR_INSUFFICIENT_RESOURCES \<and>
                retry_delay l < kMaxBackoffDelay
             then
               (let delay = GetNextExponentialBackoffDelay (retry_delay l);
                    (started, b) = Create (stream_id l) bindings (resource_request l) delay
                in (LogWarning (stream_id l) delay # started, b))
             else ([CallbackRun (Some (DICTIONARY (completion_response l)))], bindings))
      in (effects, b1\<lparr>loaders := remove1 l (loaders b1)\<rparr>))"

text \<open>
  \<^verbatim>\<open>LoadNetworkResource\<close>. \<^verbatim>\<open>GURL\<close> belongs to the url library: the parameter \<open>parse\<close>
  gives, for a URL string, whether it is valid and whether its scheme is \<^verbatim>\<open>file\<close>.
\<close>

record GURL =
  is_valid :: bool
  SchemeIsFile :: bool

definition LoadNetworkResource ::
  "(string \<Rightarrow> GURL) \<Rightarrow> InspectableWebContentsImpl \<Rightarrow> string \<Rightarrow> string \<Rightarrow> int
     \<Rightarrow> error + effect list \<times> InspectableWebContentsImpl" where
  "LoadNetworkResource parse s url headers sid =
     (let gurl = parse url
      in if \<not> is_valid gurl then
           Inr ([CallbackRun (Some (DICTIONARY (SetPath ''statusCode'' (INTEGER 404) [])))], s)
         else if SchemeIsFile gurl then Inr (Create sid s (url, headers) 0)
         else
           (case GetDevToolsWebContents s of
              None \<Rightarrow> Inl NullDereference
            | Some w \<Rightarrow> Inr (Create sid s (url, headers) 0)))"

section \<open>Notions used in the statements\<close>

text \<open>
  The call \<^verbatim>\<open>DevToolsAPI.dispatchMessageChunk\<close> that the chunk loop makes at position \<open>p\<close>
  when the frontend document \<open>w\<close> exists.
\<close>

definition chunk_call :: "web_contents \<Rightarrow> string \<Rightarrow> nat \<Rightarrow> Value \<Rightarrow> nat \<Rightarrow> effect" where
  "chunk_call w m k t p =
     ExecuteJavaScript w (ClientFunction ''DevToolsAPI.dispatchMessageChunk''
       (STRING (substr m p k) # (if p \<noteq> 0 then [] else [t])))"

fun is_frontend_call :: "effect \<Rightarrow> bool" where
  "is_frontend_call (ExecuteJavaScript w sc) = True"
| "is_frontend_call e = False"

text \<open>
  The agent hosts' bookkeeping agrees with the member \<^verbatim>\<open>agent_host_\<close>: this object is a
  client of the host it points to and of no other.
\<close>

definition single_attachment :: "InspectableWebContentsImpl \<Rightarrow> bool" where
  "single_attachment s \<longleftrightarrow>
     attached_clients s = (case agent_host s of None \<Rightarrow> [] | Some h \<Rightarrow> [h])"

text \<open>
  The delay of the loader that the \<open>n\<close>-th retry creates; the loader of the original load
  has delay 0.
\<close>

fun nth_retry_delay :: "nat \<Rightarrow> int" where
  "nth_retry_delay 0 = 0"
| "nth_retry_delay (Suc n) = GetNextExponentialBackoffDelay (nth_retry_delay n)"

text \<open>Concrete states and inputs for the worked instances.\<close>

definition fresh_session :: InspectableWebContentsImpl where
  "fresh_session =
     \<lparr>frontend_loaded = False, can_dock = True, dock_state = [], activate = False,
      delegate = False, view_delegate = False, is_guest = False, agent_host = None,
      managed_devtools_web_contents = None, external_devtools_web_contents = None,
      embedder_message_dispatcher = False, loaders = [], attached_clients = [],
      pref_current_dock_state = []\<rparr>"

definition open_session :: InspectableWebContentsImpl where
  "open_session =
     \<lparr>frontend_loaded = True, can_dock = True, dock_state = [], activate = False,
      delegate = True, view_delegate = False, is_guest = False, agent_host = Some 1,
      managed_devtools_web_contents = Some 7, external_devtools_web_contents = None,
      embedder_message_dispatcher = True, loaders = [], attached_clients = [1],
      pref_current_dock_state = []\<rparr>"

definition external_session :: InspectableWebContentsImpl where
  "external_session =
     \<lparr>frontend_loaded = True, can_dock = True, dock_state = [], activate = False,
      delegate = True, view_delegate = False, is_guest = False, agent_host = Some 1,
      managed_devtools_web_contents = None, external_devtools_web_contents = Some 9,
      embedder_message_dispatcher = True, loaders = [], attached_clients = [1],
      pref_current_dock_state = []\<rparr>"

definition example_loader :: "int \<Rightarrow> HttpResponseHeaders option \<Rightarrow> NetworkResourceLoader" where
  "example_loader delay headers =
     \<lparr>stream_id = 7, resource_request = (''https://example.com/app.js.map'', []),
      response_headers = headers, retry_delay = delay\<rparr>"

definition example_parse :: "string \<Rightarrow> GURL" where
  "example_parse url = \<lparr>is_valid = (url \<noteq> []), SchemeIsFile = (take 5 url = ''file:'')\<rparr>"

definition example_read :: "string \<Rightarrow> Value option" where
  \<open>example_read message =
     (if message = ''{"method":"loadCompleted"}''
      then Some (DICTIONARY [(''method'', STRING ''loadCompleted'')])
      else if message = ''{"id":3,"params":[]}''
      then Some (DICTIONARY [(''id'', INTEGER 3), (''params'', LIST [])])
      else None)\<close>

section \<open>The chunk loop in closed form\<close>

declare positions.simps [simp del]

declare SetPath.simps [simp del]

lemma CallClientFunction_two_args:
  "GetDevToolsWebContents s = Some w \<Longrightarrow>
   CallClientFunction s f (Some a) t None =
     [ExecuteJavaScript w (ClientFunction f (a # (case t of None \<Rightarrow> [] | Some b \<Rightarrow> [b])))]"
  by (simp add: CallClientFunction_def client_args_def split: option.splits)

lemma dispatch_chunks_closed:
  assumes "0 < k" and "GetDevToolsWebContents s = Some w"
  shows "dispatch_chunks k s m t pos = Some (map (chunk_call w m k t) (positions k (length m) pos))"
  using assms
proof (induction k "length m" pos rule: positions.induct)
  case (1 k pos)
  show ?case
  proof (cases "pos < length m")
    case True
    with 1 show ?thesis
      by (subst dispatch_chunks.simps, subst positions.simps) (simp add: CallClientFunction_two_args chunk_call_def)
  next
    case False
    then show ?thesis
      by (subst dispatch_chunks.simps, subst positions.simps) simp
  qed
qed

lemma ceil_step:
  fixes k len pos :: nat
  assumes "0 < k" and "pos < len"
  shows "(len - pos + k - 1) div k = Suc ((len - (pos + k) + k - 1) div k)"
proof (cases "pos + k \<le> len")
  have g: "(x + k) div k = Suc (x div k)" for x using assms by simp
  case True
  then have e: "len - pos + k - 1 = (len - (pos + k) + k - 1) + k" using assms by arith
  show ?thesis by (simp only: e g)
next
  have g: "(x + k) div k = Suc (x div k)" for x using assms by simp
  case False
  then have a: "len - (pos + k) + k - 1 = k - 1" by arith
  have b: "len - pos + k - 1 = (len - pos - 1) + k" using assms by arith
  have c: "len - pos - 1 < k" using False assms by arith
  have "(len - pos + k - 1) div k = Suc ((len - pos - 1) div k)"
    by (simp only: b g)
  then show ?thesis using a c assms by simp
qed

lemma length_positions:
  "0 < k \<Longrightarrow> length (positions k len pos) = (len - pos + k - 1) div k"
proof (induction k len pos rule: positions.induct)
  case (1 k len pos)
  show ?case
  proof (cases "pos < len")
    case True
    then have "length (positions k len pos) = Suc (length (positions k len (pos + k)))"
      using 1(2) by (subst positions.simps) simp
    also have "\<dots> = Suc ((len - (pos + k) + k - 1) div k)" using 1 True by simp
    also have "\<dots> = (len - pos + k - 1) div k" using ceil_step [OF 1(2) True] by simp
    finally show ?thesis .
  next
    case False
    then show ?thesis using 1(2) by (subst positions.simps) simp
  qed
qed

lemma neg_div_ceiling:
  fixes k L :: int
  assumes "0 < k"
  shows "- (- L div k) = (L + k - 1) div k"
proof -
  define q where "q = L div k"
  define r where "r = L mod k"
  have L: "L = k * q + r" by (simp add: q_def r_def)
  have r: "0 \<le> r" "r < k" using assms by (simp_all add: r_def)
  show ?thesis
  proof (cases "r = 0")
    case True
    have a: "- L div k = - q"
      by (rule int_div_pos_eq [where r = 0]) (use L True assms in simp_all)
    have "(L + k - 1) div k = q"
      by (rule int_div_pos_eq [where r = "k - 1"]) (use L True assms in simp_all)
    with a show ?thesis by simp
  next
    case False
    have a: "- L div k = - q - 1"
      by (rule int_div_pos_eq [where r = "k - r"])
         (use L r False in \<open>simp_all add: algebra_simps\<close>)
    have "(L + k - 1) div k = q + 1"
      by (rule int_div_pos_eq [where r = "r - 1"])
         (use L r False in \<open>simp_all add: algebra_simps\<close>)
    with a show ?thesis by simp
  qed
qed

lemma ceiling_div:
  fixes k L :: nat
  assumes "0 < k"
  shows "nat \<lceil>real L / real k\<rceil> = (L + k - 1) div k"
proof -
  have "\<lceil>real L / real k\<rceil> = \<lceil>(of_int (int L) :: real) / of_int (int k)\<rceil>" by simp
  also have "\<dots> = - (- int L div int k)" by (rule ceiling_divide_eq_div)
  also have "\<dots> = (int L + int k - 1) div int k" using assms by (simp add: neg_div_ceiling)
  also have "\<dots> = int ((L + k - 1) div k)" using assms by (simp add: zdiv_int of_nat_diff)
  finally show ?thesis by simp
qed

lemma DispatchProtocolMessage_chunked:
  assumes "frontend_loaded s" and "GetDevToolsWebContents s = Some w"
    and "0 < kMaxMessageChunkSize M" and "kMaxMessageChunkSize M \<le> length m"
  shows "DispatchProtocolMessage M s m =
         Some (Inr (map (chunk_call w m (kMaxMessageChunkSize M) (INTEGER (static_cast_int (length m))))
                      (positions (kMaxMessageChunkSize M) (length m) 0)))"
  using assms by (simp add: DispatchProtocolMessage_def dispatch_chunks_closed)

lemma chunk_payload_chunk_call [simp]: "chunk_payload (chunk_call w m k t p) = Some (substr m p k)"
  by (simp add: chunk_call_def)

section \<open>Outbound messages: number of calls (C1)\<close>

text \<open>
  C1, as amended. A protocol message of length \<open>L\<close> reaching a loaded session with a
  frontend document is delivered by exactly one \<^verbatim>\<open>DevToolsAPI.dispatchMessage\<close> call when
  \<open>L\<close> is strictly below the chunk size, and by exactly \<open>ceil(L / chunk size)\<close>
  \<^verbatim>\<open>DevToolsAPI.dispatchMessageChunk\<close> calls when \<open>L\<close> is at least the chunk size; the
  chunk size is the maximum IPC message size divided by 4 and is taken to be positive.
\<close>

theorem DispatchProtocolMessage_call_count:
  assumes "frontend_loaded s" and "GetDevToolsWebContents s = Some w"
    and "0 < kMaxMessageChunkSize M"
  shows "\<exists>cs. DispatchProtocolMessage M s m = Some (Inr cs) \<and>
           (if length m < kMaxMessageChunkSize M
            then cs = [ExecuteJavaScript w (DispatchMessage m)]
            else length cs = nat \<lceil>real (length m) / real (kMaxMessageChunkSize M)\<rceil> \<and>
                 list_all (\<lambda>e. chunk_payload e \<noteq> None) cs)"
proof (cases "length m < kMaxMessageChunkSize M")
  case True
  then show ?thesis using assms by (simp add: DispatchProtocolMessage_def)
next
  case False
  let ?k = "kMaxMessageChunkSize M"
  let ?cs = "map (chunk_call w m ?k (INTEGER (static_cast_int (length m)))) (positions ?k (length m) 0)"
  have d: "DispatchProtocolMessage M s m = Some (Inr ?cs)"
    using assms False by (simp add: DispatchProtocolMessage_chunked)
  have l: "length ?cs = nat \<lceil>real (length m) / real ?k\<rceil>"
    using assms(3) by (simp add: length_positions ceiling_div)
  have p: "list_all (\<lambda>e. chunk_payload e \<noteq> None) ?cs"
    by (simp add: list_all_iff)
  show ?thesis using d l p False by simp
qed

theorem DispatchProtocolMessage_call_count_witness:
  "frontend_loaded open_session \<and> GetDevToolsWebContents open_session = Some 7 \<and>
   0 < kMaxMessageChunkSize 16 \<and>
   (\<exists>cs. DispatchProtocolMessage 16 open_session ''abc'' = Some (Inr cs) \<and>
      cs = [ExecuteJavaScript 7 (DispatchMessage ''abc'')]) \<and>
   (\<exists>cs. DispatchProtocolMessage 16 open_session ''abcdefghi'' = Some (Inr cs) \<and>
      length cs = 3)"
proof -
  have h1: "frontend_loaded open_session" by (simp add: open_session_def)
  have h2: "GetDevToolsWebContents open_session = Some 7"
    by (simp add: open_session_def GetDevToolsWebContents_def)
  have h3: "0 < kMaxMessageChunkSize 16" by (simp add: kMaxMessageChunkSize_def)
  have c: "nat \<lceil>real (length ''abcdefghi'') / real (kMaxMessageChunkSize 16)\<rceil> = 3"
    by (simp add: kMaxMessageChunkSize_def)
  have a: "length ''abc'' < kMaxMessageChunkSize 16" "\<not> length ''abcdefghi'' < kMaxMessageChunkSize 16"
    by (simp_all add: kMaxMessageChunkSize_def)
  show ?thesis
    using DispatchProtocolMessage_call_count [OF h1 h2 h3, of "''abc''"]
          DispatchProtocolMessage_call_count [OF h1 h2 h3, of "''abcdefghi''"] h1 h2 h3 a c
    by auto
qed

text \<open>
  C1 as stated fails at \<open>L = chunk size\<close>: with a maximum IPC message size of 16 the chunk
  size is 4, and the 4-byte message is delivered by one \<^verbatim>\<open>dispatchMessageChunk\<close> call
  carrying the total size, not by \<^verbatim>\<open>dispatchMessage\<close>.
\<close>

theorem DispatchProtocolMessage_boundary_counterexample:
  "length ''abcd'' \<le> kMaxMessageChunkSize 16 \<and>
   DispatchProtocolMessage 16 open_session ''abcd'' =
     Some (Inr [ExecuteJavaScript 7
       (ClientFunction ''DevToolsAPI.dispatchMessageChunk'' [STRING ''abcd'', INTEGER 4])])"
  by code_simp

section \<open>Outbound messages: chunk contents (C6)\<close>


section \<open>Events before load completion (C10)\<close>

text \<open>
  C10. While \<^verbatim>\<open>frontend_loaded_\<close> is false, \<^verbatim>\<open>DispatchProtocolMessage\<close> returns without
  any call. It assigns no member (the model reads the state and returns only effects), so
  nothing is kept of the event; and when \<^verbatim>\<open>LoadCompleted\<close> runs later it sets the flag
  and delivers no protocol message. The event is lost.
\<close>

theorem DispatchProtocolMessage_before_load:
  assumes "\<not> frontend_loaded s"
  shows "DispatchProtocolMessage M s m = Some (Inr []) \<and>
         (case LoadCompleted extensions s of
            Inl e \<Rightarrow> True
          | Inr r \<Rightarrow> filter is_message_delivery (fst r) = [] \<and> frontend_loaded (snd r))"
proof -
  have a: "DispatchProtocolMessage M s m = Some (Inr [])"
    using assms by (simp add: DispatchProtocolMessage_def)
  have e: "filter is_message_delivery (AddDevToolsExtensionsToClient t registry) = []"
    for t registry
  proof (cases registry)
    case None
    then show ?thesis by (simp add: AddDevToolsExtensionsToClient_def)
  next
    case (Some es)
    have "filter is_message_delivery (extension_effects es) = []"
      by (induction es) simp_all
    then show ?thesis
      using Some
      by (simp add: AddDevToolsExtensionsToClient_def CallClientFunction_def split: option.splits)
  qed
  have b: "case LoadCompleted extensions s of
             Inl e \<Rightarrow> True
           | Inr r \<Rightarrow> filter is_message_delivery (fst r) = [] \<and> frontend_loaded (snd r)"
    by (simp add: LoadCompleted_def Let_def SetIsDocked_def e split: option.splits)
  show ?thesis using a b by simp
qed

theorem DispatchProtocolMessage_before_load_witness:
  "\<not> frontend_loaded fresh_session \<and>
   DispatchProtocolMessage 16 fresh_session ''{}'' = Some (Inr [])"
proof -
  have h: "\<not> frontend_loaded fresh_session" by (simp add: fresh_session_def)
  show ?thesis
    using DispatchProtocolMessage_before_load [OF h, of 16 "''{}''" None] h by simp
qed

section \<open>Attach and detach (C8)\<close>

lemma constructed_single: "constructed s \<Longrightarrow> single_attachment s"
  by (simp add: constructed_def single_attachment_def)

lemma Detach_single:
  "single_attachment s \<Longrightarrow>
   single_attachment (Detach s) \<and> attached_clients (Detach s) = [] \<and> agent_host (Detach s) = None"
  by (cases "agent_host s") (simp_all add: single_attachment_def Detach_def DetachClient_def)

lemma AttachTo_single:
  "single_attachment s \<Longrightarrow>
   single_attachment (AttachTo h s) \<and> attached_clients (AttachTo h s) = [h] \<and>
   agent_host (AttachTo h s) = Some h"
  using Detach_single [of s]
  by (simp add: single_attachment_def AttachTo_def AttachClient_def Let_def)

lemma Reattach_single: "single_attachment s \<Longrightarrow> single_attachment (snd (Reattach s))"
  by (cases "agent_host s")
     (simp_all add: single_attachment_def Reattach_def AttachClient_def DetachClient_def)

lemma session_step_single: "single_attachment s \<Longrightarrow> single_attachment (session_step s c)"
  by (cases c) (simp_all add: Detach_single AttachTo_single Reattach_single)

lemma session_run_single: "single_attachment s \<Longrightarrow> single_attachment (session_run s calls)"
  unfolding session_run_def
  by (induction calls arbitrary: s) (simp_all add: session_step_single)

lemma Detach_detached: "agent_host s = None \<Longrightarrow> Detach s = s"
  by (cases s) (simp add: Detach_def)

lemma single_attachment_length: "single_attachment s \<Longrightarrow> length (attached_clients s) \<le> 1"
  by (cases "agent_host s") (simp_all add: single_attachment_def)

text \<open>
  C8. \<^verbatim>\<open>AttachTo\<close> is \<^verbatim>\<open>Detach\<close>, then the assignment of the new host, then
  \<^verbatim>\<open>AttachClient\<close>, whatever the state; \<^verbatim>\<open>Detach\<close> on a detached session changes
  nothing, and a second \<^verbatim>\<open>Detach\<close> changes nothing either. After any sequence of
  \<^verbatim>\<open>AttachTo\<close>, \<^verbatim>\<open>Detach\<close> and \<^verbatim>\<open>Reattach\<close> calls on a constructed session, this
  object is a client of at most one agent host, the one \<^verbatim>\<open>agent_host_\<close> points to; one
  more \<^verbatim>\<open>AttachTo\<close> leaves exactly the new attachment.
\<close>

theorem attach_detach_single_attachment:
  assumes "constructed s0"
  shows "let s = session_run s0 calls in
           AttachTo h s = AttachClient h ((Detach s)\<lparr>agent_host := Some h\<rparr>) \<and>
           attached_clients (AttachTo h s) = [h] \<and> agent_host (AttachTo h s) = Some h \<and>
           (if agent_host s = None then Detach s = s else attached_clients (Detach s) = []) \<and>
           Detach (Detach s) = Detach s \<and>
           single_attachment s \<and> length (attached_clients s) \<le> 1"
proof -
  let ?s = "session_run s0 calls"
  have inv: "single_attachment ?s"
    using assms by (simp add: constructed_single session_run_single)
  have a: "AttachTo h ?s = AttachClient h ((Detach ?s)\<lparr>agent_host := Some h\<rparr>)"
    by (simp add: AttachTo_def Let_def)
  have d: "Detach (Detach ?s) = Detach ?s"
    using Detach_single [OF inv] by (simp add: Detach_detached)
  have i: "if agent_host ?s = None then Detach ?s = ?s else attached_clients (Detach ?s) = []"
    using Detach_single [OF inv] by (simp add: Detach_detached)
  show ?thesis
    unfolding Let_def
    using a d i inv AttachTo_single [OF inv, of h] single_attachment_length [OF inv]
    by simp
qed

theorem attach_detach_single_attachment_witness:
  "constructed fresh_session \<and>
   session_run fresh_session [CallAttachTo 1, CallAttachTo 2, CallDetach, CallDetach, CallReattach,
     CallAttachTo 3] =
     fresh_session\<lparr>agent_host := Some 3, attached_clients := [3]\<rparr> \<and>
   (let s = session_run fresh_session [CallAttachTo 1, CallAttachTo 2, CallDetach, CallDetach,
              CallReattach, CallAttachTo 3] in
      AttachTo 4 s = AttachClient 4 ((Detach s)\<lparr>agent_host := Some 4\<rparr>) \<and>
      attached_clients (AttachTo 4 s) = [4] \<and> agent_host (AttachTo 4 s) = Some 4 \<and>
      (if agent_host s = None then Detach s = s else attached_clients (Detach s) = []) \<and>
      Detach (Detach s) = Detach s \<and>
      single_attachment s \<and> length (attached_clients s) \<le> 1)"
proof -
  have h: "constructed fresh_session" by (simp add: constructed_def fresh_session_def)
  have r: "session_run fresh_session [CallAttachTo 1, CallAttachTo 2, CallDetach, CallDetach,
             CallReattach, CallAttachTo 3] =
           fresh_session\<lparr>agent_host := Some 3, attached_clients := [3]\<rparr>"
    by (simp add: session_run_def fresh_session_def AttachTo_def Detach_def Reattach_def
          AttachClient_def DetachClient_def)
  show ?thesis
    by (intro conjI h r attach_detach_single_attachment [OF h])
qed

section \<open>Delivery without a frontend document (C9)\<close>

text \<open>
  C9. When neither a managed nor an external frontend document exists,
  \<^verbatim>\<open>CallClientFunction\<close> makes no call, whatever the function and arguments; so the stream
  chunk of \<^verbatim>\<open>OnDataReceived\<close>, the acknowledgement of \<^verbatim>\<open>SendMessageAck\<close> and the
  extension list of \<^verbatim>\<open>AddDevToolsExtensionsToClient\<close> reach no frontend, and none of them
  fails.
\<close>

theorem CallClientFunction_without_frontend:
  assumes "managed_devtools_web_contents s = None" and "external_devtools_web_contents s = None"
  shows "GetDevToolsWebContents s = None \<and>
         CallClientFunction s function_name arg1 arg2 arg3 = [] \<and>
         OnDataReceived IsStringUTF8 Base64Encode s l chunk = [] \<and>
         SendMessageAck s request_id arg = [] \<and>
         filter is_frontend_call (AddDevToolsExtensionsToClient s registry) = []"
proof -
  have g: "GetDevToolsWebContents s = None"
    using assms by (simp add: GetDevToolsWebContents_def)
  have c: "CallClientFunction s f a1 a2 a3 = []" for f a1 a2 a3
    using g by (simp add: CallClientFunction_def)
  have e: "filter is_frontend_call (extension_effects es) = []" for es
    by (induction es) simp_all
  have x: "filter is_frontend_call (AddDevToolsExtensionsToClient s registry) = []"
    by (cases registry) (simp_all add: AddDevToolsExtensionsToClient_def c e)
  show ?thesis
    using g c x by (simp add: OnDataReceived_def SendMessageAck_def Let_def)
qed

theorem CallClientFunction_without_frontend_witness:
  "managed_devtools_web_contents fresh_session = None \<and>
   external_devtools_web_contents fresh_session = None \<and>
   CallClientFunction fresh_session ''DevToolsAPI.streamWrite''
     (Some (INTEGER 7)) (Some (STRING ''abc'')) (Some (BOOLEAN False)) = [] \<and>
   SendMessageAck fresh_session 3 None = []"
proof -
  have h1: "managed_devtools_web_contents fresh_session = None" by (simp add: fresh_session_def)
  have h2: "external_devtools_web_contents fresh_session = None" by (simp add: fresh_session_def)
  show ?thesis
    using CallClientFunction_without_frontend [OF h1 h2, of "''DevToolsAPI.streamWrite''"
        "Some (INTEGER 7)" "Some (STRING ''abc'')" "Some (BOOLEAN False)" _ _ _ _ 3 None] h1 h2
    by simp
qed

section \<open>Reload interception (C2)\<close>

lemma MatchPattern_star:
  "MatchPattern str ps \<Longrightarrow> MatchPattern (xs @ str) (CHR ''*'' # ps)"
proof (induction xs)
  case Nil
  then show ?case by (cases str) simp_all
next
  case (Cons x xs)
  then show ?case by simp
qed

lemma reload_shape_matches:
  \<open>MatchPattern (''{"id":'' @ i @ '',"method":"Page.reload","params":'' @ ps @ ''}'') kReloadPattern\<close>
proof -
  have a: \<open>MatchPattern (ps @ ''}'') ''*}''\<close>
    by (rule MatchPattern_star) simp
  have b: \<open>MatchPattern ('',"method":"Page.reload","params":'' @ ps @ ''}'')
             '',"method":"Page.reload","params":*}''\<close>
    using a by simp
  have c: \<open>MatchPattern (i @ '',"method":"Page.reload","params":'' @ ps @ ''}'')
             ''*,"method":"Page.reload","params":*}''\<close>
    using b by (rule MatchPattern_star)
  then show ?thesis by (simp add: kReloadPattern_def)
qed

text \<open>
  C2, as amended. Interception is decided on the raw text of the message, by the pattern
  \<^verbatim>\<open>{"id":*,"method":"Page.reload","params":*}\<close>. Every message made of an \<^verbatim>\<open>id\<close>, the
  method \<^verbatim>\<open>Page.reload\<close> and \<^verbatim>\<open>params\<close>, in this order and without white space, is
  intercepted whatever the texts of the id and of the params are: the delegate's reload
  notification is invoked when a delegate is set, and nothing is forwarded to the agent
  host. For every message, it is forwarded to the attached agent host exactly when it does
  not match the pattern.
\<close>

theorem reload_pattern_intercepted:
  \<open>DispatchProtocolMessageFromDevToolsFrontend s
      (''{"id":'' @ i @ '',"method":"Page.reload","params":'' @ ps @ ''}'') =
      (if delegate s then [DevToolsReloadPage] else []) \<and>
    (if MatchPattern message kReloadPattern
     then DispatchProtocolMessageFromDevToolsFrontend s message =
            (if delegate s then [DevToolsReloadPage] else [])
     else DispatchProtocolMessageFromDevToolsFrontend s message =
            (case agent_host s of
               Some h \<Rightarrow> [AgentDispatchProtocolMessage h message]
             | None \<Rightarrow> []))\<close>
  using reload_shape_matches [of i ps]
  by (simp add: DispatchProtocolMessageFromDevToolsFrontend_def)

theorem reload_pattern_intercepted_witness:
  \<open>DispatchProtocolMessageFromDevToolsFrontend open_session
      ''{"id":12,"method":"Page.reload","params":{"ignoreCache":true}}'' = [DevToolsReloadPage]\<close>
  using reload_pattern_intercepted [of open_session \<open>''12''\<close> \<open>''{"ignoreCache":true}''\<close> \<open>[]\<close>]
  by (simp add: open_session_def)

text \<open>
  C2 as stated fails when the params are absent: the message below has the method
  \<^verbatim>\<open>Page.reload\<close>, does not match the pattern and is forwarded to the attached agent
  host, although a delegate is set.
\<close>

theorem reload_without_params_counterexample:
  \<open>delegate open_session \<and>
    DispatchProtocolMessageFromDevToolsFrontend open_session ''{"id":1,"method":"Page.reload"}'' =
      [AgentDispatchProtocolMessage 1 ''{"id":1,"method":"Page.reload"}'']\<close>
  by (simp add: DispatchProtocolMessageFromDevToolsFrontend_def kReloadPattern_def open_session_def)

section \<open>Parsing inbound envelopes (C5)\<close>

lemma GetString_eq: "GetString d k = Some x \<longleftrightarrow> map_of d k = Some (STRING x)"
  by (auto simp: GetString_def split: option.splits Value.splits)

lemma GetList_eq: "GetList d k = Some x \<longleftrightarrow> map_of d k = Some (LIST x)"
  by (auto simp: GetList_def split: option.splits Value.splits)

lemma GetInteger_eq: "GetInteger d k = Some x \<longleftrightarrow> map_of d k = Some (INTEGER x)"
  by (auto simp: GetInteger_def split: option.splits Value.splits)

lemma option_None_iff: "x = None \<longleftrightarrow> (\<forall>y. x \<noteq> Some y)"
  by (cases x) simp_all

lemma parse_with_dispatcher:
  assumes "embedder_message_dispatcher s"
  shows
    "(HandleMessageFromDevToolsFrontend ReadDeprecated s message = [LogError message] \<longleftrightarrow>
        ReadDeprecated message = None \<or>
        (\<exists>v. ReadDeprecated message = Some v \<and> (\<forall>d. v \<noteq> DICTIONARY d)) \<or>
        (\<exists>d. ReadDeprecated message = Some (DICTIONARY d) \<and>
             ((\<forall>x. map_of d ''method'' \<noteq> Some (STRING x)) \<or>
              (\<exists>v. map_of d ''params'' = Some v \<and> (\<forall>l. v \<noteq> LIST l))))) \<and>
     (HandleMessageFromDevToolsFrontend ReadDeprecated s message = [LogError message] \<or>
      (\<exists>d i method params.
         ReadDeprecated message = Some (DICTIONARY d) \<and>
         HandleMessageFromDevToolsFrontend ReadDeprecated s message = [Dispatch i method params] \<and>
         map_of d ''method'' = Some (STRING method) \<and>
         (case map_of d ''params'' of None \<Rightarrow> params = [] | Some v \<Rightarrow> v = LIST params) \<and>
         (case map_of d ''id'' of None \<Rightarrow> i = 0 | Some (INTEGER j) \<Rightarrow> i = j | Some v \<Rightarrow> i = 0)))"
proof (cases "ReadDeprecated message")
  case None
  then show ?thesis using assms by (simp add: HandleMessageFromDevToolsFrontend_def)
next
  case (Some v)
  show ?thesis
  proof (cases "\<exists>d. v = DICTIONARY d")
    case False
    then have "HandleMessageFromDevToolsFrontend ReadDeprecated s message = [LogError message]"
      using assms Some by (cases v) (simp_all add: HandleMessageFromDevToolsFrontend_def)
    then show ?thesis using Some False by simp
  next
    case True
    then obtain d where v: "v = DICTIONARY d" by blast
    show ?thesis
    proof (cases "GetString d kFrontendHostMethod")
      case None
      then have n: "\<forall>x. map_of d ''method'' \<noteq> Some (STRING x)"
        by (simp add: option_None_iff GetString_eq kFrontendHostMethod_def)
      have "HandleMessageFromDevToolsFrontend ReadDeprecated s message = [LogError message]"
        using assms Some v None by (simp add: HandleMessageFromDevToolsFrontend_def)
      then show ?thesis using Some v n by simp
    next
      case (Some meth)
      note m = Some
      then have mm: "map_of d ''method'' = Some (STRING meth)"
        by (simp add: GetString_eq kFrontendHostMethod_def)
      show ?thesis
      proof (cases "map_of d ''params''")
        case None
        then have h: "HandleMessageFromDevToolsFrontend ReadDeprecated s message =
            [Dispatch (case GetInteger d kFrontendHostId of Some i \<Rightarrow> i | None \<Rightarrow> 0) meth []]"
          using assms \<open>ReadDeprecated message = Some v\<close> v m
          by (simp add: HandleMessageFromDevToolsFrontend_def HasKey_def GetList_def
                kFrontendHostParams_def)
        have i: "case map_of d ''id'' of None \<Rightarrow>
                   (case GetInteger d kFrontendHostId of Some i \<Rightarrow> i | None \<Rightarrow> 0) = 0
                 | Some (INTEGER j) \<Rightarrow>
                   (case GetInteger d kFrontendHostId of Some i \<Rightarrow> i | None \<Rightarrow> 0) = j
                 | Some v \<Rightarrow> (case GetInteger d kFrontendHostId of Some i \<Rightarrow> i | None \<Rightarrow> 0) = 0"
          by (simp add: GetInteger_def kFrontendHostId_def split: option.splits Value.splits)
        show ?thesis
          using h i mm None \<open>ReadDeprecated message = Some v\<close> v by simp
      next
        case (Some p)
        show ?thesis
        proof (cases "\<exists>l. p = LIST l")
          case True
          then obtain l where l: "p = LIST l" by blast
          have h: "HandleMessageFromDevToolsFrontend ReadDeprecated s message =
              [Dispatch (case GetInteger d kFrontendHostId of Some i \<Rightarrow> i | None \<Rightarrow> 0) meth l]"
            using assms \<open>ReadDeprecated message = Some v\<close> v m Some l
            by (simp add: HandleMessageFromDevToolsFrontend_def HasKey_def GetList_def
                  kFrontendHostParams_def)
          have i: "case map_of d ''id'' of None \<Rightarrow>
                     (case GetInteger d kFrontendHostId of Some i \<Rightarrow> i | None \<Rightarrow> 0) = 0
                   | Some (INTEGER j) \<Rightarrow>
                     (case GetInteger d kFrontendHostId of Some i \<Rightarrow> i | None \<Rightarrow> 0) = j
                   | Some v \<Rightarrow> (case GetInteger d kFrontendHostId of Some i \<Rightarrow> i | None \<Rightarrow> 0) = 0"
            by (simp add: GetInteger_def kFrontendHostId_def split: option.splits Value.splits)
          show ?thesis
            using h i mm Some l \<open>ReadDeprecated message = Some v\<close> v by simp
        next
          case False
          then have "GetList d kFrontendHostParams = None"
            using Some by (cases p) (simp_all add: GetList_def kFrontendHostParams_def)
          then have "HandleMessageFromDevToolsFrontend ReadDeprecated s message = [LogError message]"
            using assms \<open>ReadDeprecated message = Some v\<close> v m Some
            by (simp add: HandleMessageFromDevToolsFrontend_def HasKey_def kFrontendHostParams_def)
          then show ?thesis
            using False Some \<open>ReadDeprecated message = Some v\<close> v by simp
        qed
      qed
    qed
  qed
qed

text \<open>
  C5, as amended. A message that arrives while there is no message dispatcher (before the
  frontend is shown, or after it was closed) is dropped before it is read: no parsing, no
  log, no dispatch and no reply, whether it is well formed or not. With a message
  dispatcher in place, the message is dropped, with the error log as the only effect,
  exactly when the text is not valid JSON, or the value read is not a dictionary, or the
  dictionary has no string under \<^verbatim>\<open>method\<close>, or it has a value under \<^verbatim>\<open>params\<close> that
  is not a list. Otherwise there is exactly one dispatch, with the method, with the list
  under \<^verbatim>\<open>params\<close> (empty when absent) and with the integer under \<^verbatim>\<open>id\<close>, 0 when
  \<^verbatim>\<open>id\<close> is absent.
\<close>

theorem HandleMessageFromDevToolsFrontend_parse:
  "if embedder_message_dispatcher s
   then
     (HandleMessageFromDevToolsFrontend ReadDeprecated s message = [LogError message] \<longleftrightarrow>
         ReadDeprecated message = None \<or>
         (\<exists>v. ReadDeprecated message = Some v \<and> (\<forall>d. v \<noteq> DICTIONARY d)) \<or>
         (\<exists>d. ReadDeprecated message = Some (DICTIONARY d) \<and>
              ((\<forall>x. map_of d ''method'' \<noteq> Some (STRING x)) \<or>
               (\<exists>v. map_of d ''params'' = Some v \<and> (\<forall>l. v \<noteq> LIST l))))) \<and>
      (HandleMessageFromDevToolsFrontend ReadDeprecated s message = [LogError message] \<or>
       (\<exists>d i method params.
          ReadDeprecated message = Some (DICTIONARY d) \<and>
          HandleMessageFromDevToolsFrontend ReadDeprecated s message = [Dispatch i method params] \<and>
          map_of d ''method'' = Some (STRING method) \<and>
          (case map_of d ''params'' of None \<Rightarrow> params = [] | Some v \<Rightarrow> v = LIST params) \<and>
          (case map_of d ''id'' of None \<Rightarrow> i = 0 | Some (INTEGER j) \<Rightarrow> i = j | Some v \<Rightarrow> i = 0)))
   else HandleMessageFromDevToolsFrontend ReadDeprecated s message = []"
proof (cases "embedder_message_dispatcher s")
  case True
  show ?thesis
    by (subst if_P [OF True]) (rule parse_with_dispatcher [OF True])
next
  case False
  show ?thesis
    by (subst if_not_P [OF False]) (simp add: HandleMessageFromDevToolsFrontend_def False)
qed

theorem HandleMessageFromDevToolsFrontend_parse_witness:
  \<open>embedder_message_dispatcher open_session \<and>
    HandleMessageFromDevToolsFrontend example_read open_session ''{"method":"loadCompleted"}'' =
      [Dispatch 0 ''loadCompleted'' []] \<and>
    HandleMessageFromDevToolsFrontend example_read open_session ''{"id":3,"params":[]}'' =
      [LogError ''{"id":3,"params":[]}''] \<and>
    HandleMessageFromDevToolsFrontend example_read fresh_session ''{"id":3,"params":[]}'' = []\<close>
proof -
  have h: "embedder_message_dispatcher open_session" by (simp add: open_session_def)
  have n: "\<not> embedder_message_dispatcher fresh_session" by (simp add: fresh_session_def)
  show ?thesis
    using HandleMessageFromDevToolsFrontend_parse [of open_session example_read
            \<open>''{"method":"loadCompleted"}''\<close>]
          HandleMessageFromDevToolsFrontend_parse [of open_session example_read
            \<open>''{"id":3,"params":[]}''\<close>]
          HandleMessageFromDevToolsFrontend_parse [of fresh_session example_read
            \<open>''{"id":3,"params":[]}''\<close>] h n
    by (auto simp: example_read_def)
qed

text \<open>
  C5 as stated fails without a message dispatcher. Closing a session whose frontend
  document is external releases the dispatcher and leaves the document in place; the well
  formed message that this document sends afterwards is dropped, and not even logged.
\<close>

theorem valid_message_dropped_counterexample:
  \<open>external_devtools_web_contents (snd (CloseDevTools external_session)) = Some 9 \<and>
    example_read ''{"method":"loadCompleted"}'' =
      Some (DICTIONARY [(''method'', STRING ''loadCompleted'')]) \<and>
    HandleMessageFromDevToolsFrontend example_read (snd (CloseDevTools external_session))
      ''{"method":"loadCompleted"}'' = []\<close>
  by (simp add: CloseDevTools_def GetDevToolsWebContents_def external_session_def Let_def
        example_read_def HandleMessageFromDevToolsFrontend_def)

section \<open>Unparsable URLs (C7)\<close>

text \<open>
  C7. When the URL string does not parse as a valid URL, \<^verbatim>\<open>LoadNetworkResource\<close> runs the
  callback at once with a response holding only the status code 404 (no headers) and
  returns: the state, and with it the loader registry, is unchanged, and no loader is
  created, so no timer is started and no download or retry follows.
\<close>

theorem LoadNetworkResource_invalid_url:
  assumes "\<not> is_valid (parse url)"
  shows "LoadNetworkResource parse s url headers sid =
           Inr ([CallbackRun (Some (DICTIONARY [(''statusCode'', INTEGER 404)]))], s)"
proof -
  have "SetPath ''statusCode'' (INTEGER 404) [] = [(''statusCode'', INTEGER 404)]"
    by (subst SetPath.simps) simp
  then show ?thesis using assms by (simp add: LoadNetworkResource_def)
qed

theorem LoadNetworkResource_invalid_url_witness:
  "\<not> is_valid (example_parse []) \<and>
   LoadNetworkResource example_parse open_session [] [] 7 =
     Inr ([CallbackRun (Some (DICTIONARY [(''statusCode'', INTEGER 404)]))], open_session)"
proof -
  have h: "\<not> is_valid (example_parse [])" by (simp add: example_parse_def)
  show ?thesis
    using LoadNetworkResource_invalid_url
            [where parse = example_parse and url = "[]" and s = open_session
               and headers = "[]" and sid = 7] h
    by simp
qed

section \<open>Retry schedule (C3)\<close>

lemma GetNext_grows:
  assumes "250000 \<le> d"
  shows "d < GetNextExponentialBackoffDelay d \<and> 250000 \<le> GetNextExponentialBackoffDelay d"
proof -
  have "d < d * 13 div 10" using assms by arith
  then show ?thesis
    using assms by (simp add: GetNextExponentialBackoffDelay_def times_1_3_def)
qed

lemma nth_retry_delay_lower: "250000 \<le> nth_retry_delay (Suc n)"
proof (induction n)
  case 0
  show ?case by (simp add: GetNextExponentialBackoffDelay_def kInitialBackoffDelay_def)
next
  case (Suc n)
  then show ?case using GetNext_grows [of "nth_retry_delay (Suc n)"] by simp
qed

lemma nth_retry_delay_step: "nth_retry_delay n < nth_retry_delay (Suc n)"
proof (cases n)
  case 0
  then show ?thesis by (simp add: GetNextExponentialBackoffDelay_def kInitialBackoffDelay_def)
next
  case (Suc k)
  then show ?thesis
    using GetNext_grows [of "nth_retry_delay (Suc k)"] nth_retry_delay_lower [of k] by simp
qed

lemma nth_retry_delay_mono:
  assumes "m \<le> n"
  shows "nth_retry_delay m \<le> nth_retry_delay n"
proof (rule lift_Suc_mono_le [OF _ assms])
  fix k
  show "nth_retry_delay k \<le> nth_retry_delay (Suc k)"
    using nth_retry_delay_step [of k] by (simp only: less_imp_le)
qed

lemma nth_retry_delay_15: "nth_retry_delay 15 = 9843424"
  by (simp add: eval_nat_numeral GetNextExponentialBackoffDelay_def kInitialBackoffDelay_def
        times_1_3_def)

lemma nth_retry_delay_16: "nth_retry_delay 16 = 12796451"
  by (simp add: eval_nat_numeral GetNextExponentialBackoffDelay_def kInitialBackoffDelay_def
        times_1_3_def)

lemma retry_while_below_ceiling: "nth_retry_delay n < kMaxBackoffDelay \<longleftrightarrow> n \<le> 15"
proof
  assume a: "nth_retry_delay n < kMaxBackoffDelay"
  show "n \<le> 15"
  proof (rule ccontr)
    assume "\<not> n \<le> 15"
    then have "16 \<le> n" by simp
    then have "nth_retry_delay 16 \<le> nth_retry_delay n" by (rule nth_retry_delay_mono)
    then show False using a by (simp add: nth_retry_delay_16 kMaxBackoffDelay_def)
  qed
next
  assume "n \<le> 15"
  then have "nth_retry_delay n \<le> nth_retry_delay 15" by (rule nth_retry_delay_mono)
  then show "nth_retry_delay n < kMaxBackoffDelay"
    by (simp add: nth_retry_delay_15 kMaxBackoffDelay_def)
qed

text \<open>
  C3, as amended. For a load that keeps failing with \<^verbatim>\<open>ERR_INSUFFICIENT_RESOURCES\<close>, the
  loader of the \<open>n\<close>-th retry has the delay \<open>d[n]\<close> with \<open>d[0] = 0\<close> for the original
  load, \<open>d[1] = 250 ms\<close> and \<open>d[n+1] = d[n] * 1.3\<close> cut to whole microseconds; the delays
  are strictly increasing. A retry is scheduled exactly as long as the delay of the loader
  that failed, not the delay computed for the next one, is below the ceiling of 10 s.
  That is the case for \<open>n \<le> 15\<close>: the 16th retry is scheduled with a delay of
  12.796451 s, above the ceiling, and the loader it creates, failing again, reports
  completion to the callback and schedules nothing more. In both cases the failing loader
  leaves the registry.
\<close>

theorem backoff_retry_schedule:
  assumes "retry_delay l = nth_retry_delay n"
  shows "let d = retry_delay l;
             delay = GetNextExponentialBackoffDelay d;
             r = OnComplete bindings l False ERR_INSUFFICIENT_RESOURCES
         in d < delay \<and> delay = nth_retry_delay (Suc n) \<and>
            (if n = 0 then delay = 250 * 1000 else delay = (d * 13) div 10) \<and>
            (if d < kMaxBackoffDelay
             then fst r = [LogWarning (stream_id l) delay, StartTimer (stream_id l) delay] \<and>
                  loaders (snd r) =
                    remove1 l (loaders bindings @
                      [\<lparr>stream_id = stream_id l, resource_request = resource_request l,
                        response_headers = None, retry_delay = delay\<rparr>])
             else fst r = [CallbackRun (Some (DICTIONARY (completion_response l)))] \<and>
                  loaders (snd r) = remove1 l (loaders bindings)) \<and>
            (d < kMaxBackoffDelay \<longleftrightarrow> n \<le> 15) \<and>
            kMaxBackoffDelay = 10 * 1000000 \<and> nth_retry_delay 16 = 12796451"
proof -
  let ?d = "retry_delay l"
  let ?delay = "GetNextExponentialBackoffDelay ?d"
  let ?r = "OnComplete bindings l False ERR_INSUFFICIENT_RESOURCES"
  have s: "?delay = nth_retry_delay (Suc n)" using assms by simp
  have g: "?d < ?delay" using nth_retry_delay_step [of n] assms by simp
  have v: "if n = 0 then ?delay = 250 * 1000 else ?delay = (?d * 13) div 10"
  proof (cases n)
    case 0
    then show ?thesis
      using assms by (simp add: GetNextExponentialBackoffDelay_def kInitialBackoffDelay_def)
  next
    case (Suc k)
    then have "250000 \<le> ?d" using assms nth_retry_delay_lower [of k] by simp
    then show ?thesis
      using Suc by (simp add: GetNextExponentialBackoffDelay_def times_1_3_def)
  qed
  have o: "if ?d < kMaxBackoffDelay
           then fst ?r = [LogWarning (stream_id l) ?delay, StartTimer (stream_id l) ?delay] \<and>
                loaders (snd ?r) =
                  remove1 l (loaders bindings @
                    [\<lparr>stream_id = stream_id l, resource_request = resource_request l,
                      response_headers = None, retry_delay = ?delay\<rparr>])
           else fst ?r = [CallbackRun (Some (DICTIONARY (completion_response l)))] \<and>
                loaders (snd ?r) = remove1 l (loaders bindings)"
    by (simp add: OnComplete_def Create_def Let_def)
  have c: "?d < kMaxBackoffDelay \<longleftrightarrow> n \<le> 15"
    using assms by (simp add: retry_while_below_ceiling)
  have k: "kMaxBackoffDelay = 10 * 1000000" by (simp add: kMaxBackoffDelay_def)
  show ?thesis
    unfolding Let_def by (intro conjI g s v o c k nth_retry_delay_16)
qed

theorem backoff_retry_schedule_witness:
  "retry_delay (example_loader 250000 None) = nth_retry_delay 1 \<and>
   fst (OnComplete open_session (example_loader 250000 None) False ERR_INSUFFICIENT_RESOURCES) =
     [LogWarning 7 325000, StartTimer 7 325000]"
proof -
  have h: "retry_delay (example_loader 250000 None) = nth_retry_delay 1"
    by (simp add: example_loader_def GetNextExponentialBackoffDelay_def kInitialBackoffDelay_def)
  show ?thesis
    using backoff_retry_schedule [OF h, of open_session] h
    by (simp add: Let_def example_loader_def kMaxBackoffDelay_def)
qed

text \<open>
  C3 as stated fails at the 15th retry: its loader has a delay of 9.843424 s, the delay
  computed for the next attempt is 12.796451 s and exceeds the ceiling, and that attempt
  is scheduled all the same.
\<close>

theorem backoff_ceiling_counterexample:
  "nth_retry_delay 15 = 9843424 \<and>
   kMaxBackoffDelay < GetNextExponentialBackoffDelay 9843424 \<and>
   fst (OnComplete open_session (example_loader 9843424 None) False ERR_INSUFFICIENT_RESOURCES) =
     [LogWarning 7 12796451, StartTimer 7 12796451]"
  by (simp add: nth_retry_delay_15 OnComplete_def Create_def example_loader_def
        GetNextExponentialBackoffDelay_def times_1_3_def kMaxBackoffDelay_def)

section \<open>Completion report (C4)\<close>

lemma map_of_SetKey: "map_of (SetKey k v d) = (map_of d)(k \<mapsto> v)"
  by (induction d) auto

lemma keys_SetKey:
  "map fst (SetKey k v d) = (if k \<in> fst ` set d then map fst d else map fst d @ [k])"
  by (induction d) force+

lemma distinct_SetKey: "distinct (map fst d) \<Longrightarrow> distinct (map fst (SetKey k v d))"
  by (simp add: keys_SetKey)

lemma SetPath_top: "\<exists>k x. SetPath path v d = SetKey k x d"
proof (cases "CHR ''.'' \<in> set path")
  case True
  then show ?thesis by (subst SetPath.simps) (simp only: if_True Let_def, blast)
next
  case False
  then show ?thesis by (subst SetPath.simps) (simp only: if_False, blast)
qed

lemma SetPath_plain: "CHR ''.'' \<notin> set path \<Longrightarrow> SetPath path v d = SetKey path v d"
  by (subst SetPath.simps) simp

lemma distinct_SetPath: "distinct (map fst d) \<Longrightarrow> distinct (map fst (SetPath path v d))"
  using SetPath_top [of path v d] by (auto simp: distinct_SetKey)

lemma distinct_header_dictionary:
  "distinct (map fst headers) \<Longrightarrow> distinct (map fst (header_dictionary lines headers))"
  by (induction lines headers rule: header_dictionary.induct) (simp_all add: distinct_SetPath)

lemma map_of_header_dictionary:
  "\<forall>name \<in> fst ` set lines. CHR ''.'' \<notin> set name \<Longrightarrow>
   map_of (header_dictionary lines headers) name =
     (case map_of (rev lines) name of
        Some val \<Rightarrow> Some (STRING val)
      | None \<Rightarrow> map_of headers name)"
proof (induction lines headers rule: header_dictionary.induct)
  case (1 headers)
  show ?case by simp
next
  case (2 n val lines headers)
  then have p: "SetPath n (STRING val) headers = SetKey n (STRING val) headers"
    by (simp add: SetPath_plain)
  have "map_of (header_dictionary lines (SetPath n (STRING val) headers)) name =
        (case map_of (rev lines) name of
           Some val \<Rightarrow> Some (STRING val)
         | None \<Rightarrow> map_of (SetPath n (STRING val) headers) name)"
    using 2 by simp
  then show ?case
    by (simp add: p map_of_SetKey map_add_def split: option.splits)
qed

text \<open>
  C4, as amended. On terminal completion (every completion but a retried resource
  exhaustion) the callback receives a response whose \<^verbatim>\<open>statusCode\<close> is the response code
  of the response headers when there are any and 200 otherwise, and whose \<^verbatim>\<open>headers\<close> is
  a dictionary keyed by header name. A name occurs in it at most once: of several lines
  with the same name the last one gives the value, the earlier ones are overwritten.
  (This is stated for header names without a dot; the dictionary writer reads a dot as
  a path separator.)
\<close>

theorem completion_report:
  assumes "\<not> (\<not> success \<and> NetError = ERR_INSUFFICIENT_RESOURCES \<and>
              retry_delay l < kMaxBackoffDelay)"
  shows "\<exists>response hs.
           fst (OnComplete bindings l success NetError) =
             [CallbackRun (Some (DICTIONARY response))] \<and>
           map_of response ''statusCode'' =
             Some (INTEGER (case response_headers l of
                              Some h \<Rightarrow> response_code h
                            | None \<Rightarrow> 200)) \<and>
           map_of response ''headers'' = Some (DICTIONARY hs) \<and>
           distinct (map fst hs) \<and>
           (case response_headers l of
              None \<Rightarrow> hs = []
            | Some h \<Rightarrow>
                if \<forall>name \<in> fst ` set (header_lines h). CHR ''.'' \<notin> set name
                then \<forall>name. map_of hs name = map_option STRING (map_of (rev (header_lines h)) name)
                else True)"
proof -
  let ?hs = "case response_headers l of
               Some h \<Rightarrow> header_dictionary (header_lines h) []
             | None \<Rightarrow> []"
  have f: "fst (OnComplete bindings l success NetError) =
             [CallbackRun (Some (DICTIONARY (completion_response l)))]"
    using assms by (auto simp: OnComplete_def)
  have sc: "SetPath ''statusCode'' v d = SetKey ''statusCode'' v d" for v d
    by (rule SetPath_plain) simp
  have hd: "SetPath ''headers'' v d = SetKey ''headers'' v d" for v d
    by (rule SetPath_plain) simp
  have r: "completion_response l =
             [(''statusCode'', INTEGER (case response_headers l of
                                          Some h \<Rightarrow> response_code h
                                        | None \<Rightarrow> 200)),
              (''headers'', DICTIONARY ?hs)]"
    by (simp add: completion_response_def sc hd)
  have d: "distinct (map fst ?hs)"
    by (cases "response_headers l") (simp_all add: distinct_header_dictionary)
  have m: "case response_headers l of
             None \<Rightarrow> ?hs = []
           | Some h \<Rightarrow>
               if \<forall>name \<in> fst ` set (header_lines h). CHR ''.'' \<notin> set name
               then \<forall>name. map_of ?hs name = map_option STRING (map_of (rev (header_lines h)) name)
               else True"
  proof (cases "response_headers l")
    case None
    then show ?thesis by simp
  next
    case (Some h)
    show ?thesis
    proof (cases "\<forall>name \<in> fst ` set (header_lines h). CHR ''.'' \<notin> set name")
      case True
      then have "map_of (header_dictionary (header_lines h) []) name =
                 map_option STRING (map_of (rev (header_lines h)) name)" for name
        using map_of_header_dictionary [OF True, of "[]" name]
        by (simp split: option.splits)
      then show ?thesis using Some True by simp
    next
      case False
      then show ?thesis using Some by auto
    qed
  qed
  show ?thesis
    by (rule exI [of _ "completion_response l"], rule exI [of _ ?hs])
       (use f d m in \<open>simp add: r\<close>)
qed

theorem completion_report_witness:
  "\<not> (\<not> True \<and> OK = ERR_INSUFFICIENT_RESOURCES \<and>
        retry_delay (example_loader 0 (Some \<lparr>response_code = 404,
          header_lines = [(''Content-Type'', ''text/plain'')]\<rparr>)) < kMaxBackoffDelay) \<and>
   fst (OnComplete open_session
          (example_loader 0 (Some \<lparr>response_code = 404,
             header_lines = [(''Content-Type'', ''text/plain'')]\<rparr>)) True OK) =
     [CallbackRun (Some (DICTIONARY
        [(''statusCode'', INTEGER 404),
         (''headers'', DICTIONARY [(''Content-Type'', STRING ''text/plain'')])]))]"
proof -
  let ?l = "example_loader 0 (Some \<lparr>response_code = 404,
              header_lines = [(''Content-Type'', ''text/plain'')]\<rparr>)"
  have h: "\<not> (\<not> True \<and> OK = ERR_INSUFFICIENT_RESOURCES \<and> retry_delay ?l < kMaxBackoffDelay)"
    by simp
  have "fst (OnComplete open_session ?l True OK) =
          [CallbackRun (Some (DICTIONARY
             [(''statusCode'', INTEGER 404),
              (''headers'', DICTIONARY [(''Content-Type'', STRING ''text/plain'')])]))]"
    using completion_report [OF h, of open_session]
    by (simp add: OnComplete_def completion_response_def example_loader_def SetPath_plain)
  then show ?thesis using h by simp
qed

text \<open>
  C4 as stated fails for a repeated header name: of two \<^verbatim>\<open>Set-Cookie\<close> lines the
  report keeps one entry, with the value of the second line.
\<close>

theorem duplicate_header_counterexample:
  "fst (OnComplete open_session
          (example_loader 0 (Some \<lparr>response_code = 200,
             header_lines = [(''Set-Cookie'', ''a=1''), (''Set-Cookie'', ''b=2'')]\<rparr>)) True OK) =
     [CallbackRun (Some (DICTIONARY
        [(''statusCode'', INTEGER 200),
         (''headers'', DICTIONARY [(''Set-Cookie'', STRING ''b=2'')])]))]"
  by (simp add: OnComplete_def completion_response_def example_loader_def SetPath_plain)

end
